theory Spec2Isabelle
  imports Complex_Main
begin

section \<open>Sensor metrics service: the ingestion and query handlers of main.py\<close>

text \<open>
  The service has two handlers, \<open>create_metric\<close> (POST /metrics) and \<open>query_metrics\<close>
  (GET /metrics/query), over one table of readings. The handlers are embedded as pure
  functions: the clock reading and the table are arguments, an exception is the left
  injection of a sum.

  One idealisation: the arithmetic of finite floats is the arithmetic of the real
  numbers (no rounding error, no overflow to infinity). The non-finite floats are values
  of their own.
\<close>

subsection \<open>Errors\<close>

text \<open>
  \<open>HTTPException\<close> carries the status code and the detail of the source's
  \<open>raise HTTPException(status_code=..., detail=...)\<close>. \<open>RequestValidationError\<close> is the
  rejection by the framework of a request that does not fit the declared parameters or
  body (status 422), with the names of the offending fields; \<open>ResponseValidationError\<close>
  is its refusal of a return value that does not fit the declared response model.
  \<open>TypeError\<close>, \<open>IndexError\<close> and \<open>OverflowError\<close> are the interpreter's own exceptions.
  All but the first two reach the client as a server error.
\<close>

datatype error =
    HTTPException nat string
  | RequestValidationError "string list"
  | ResponseValidationError
  | TypeError
  | IndexError
  | OverflowError

fun status_code :: "error \<Rightarrow> nat" where
  "status_code (HTTPException c d) = c"
| "status_code (RequestValidationError fs) = 422"
| "status_code ResponseValidationError = 500"
| "status_code TypeError = 500"
| "status_code IndexError = 500"
| "status_code OverflowError = 500"

definition is_client_error :: "error \<Rightarrow> bool" where
  "is_client_error e = (400 \<le> status_code e \<and> status_code e < 500)"

subsection \<open>float\<close>

datatype pyfloat = Finite real | PosInf | NegInf | NaN

fun is_finite :: "pyfloat \<Rightarrow> bool" where
  "is_finite (Finite x) = True"
| "is_finite other = False"

fun fadd :: "pyfloat \<Rightarrow> pyfloat \<Rightarrow> pyfloat" where
  "fadd (Finite x) (Finite y) = Finite (x + y)"
| "fadd NaN b = NaN"
| "fadd a NaN = NaN"
| "fadd PosInf NegInf = NaN"
| "fadd NegInf PosInf = NaN"
| "fadd PosInf b = PosInf"
| "fadd a PosInf = PosInf"
| "fadd NegInf b = NegInf"
| "fadd a NegInf = NegInf"

text \<open>The order of the floats that are numbers; nothing is below or above NaN.\<close>

fun fle :: "pyfloat \<Rightarrow> pyfloat \<Rightarrow> bool" where
  "fle NaN b = False"
| "fle a NaN = False"
| "fle NegInf b = True"
| "fle a PosInf = True"
| "fle (Finite x) (Finite y) = (x \<le> y)"
| "fle a b = False"

definition fmin :: "pyfloat \<Rightarrow> pyfloat \<Rightarrow> pyfloat" where
  "fmin a b = (if fle a b then a else b)"

definition fmax :: "pyfloat \<Rightarrow> pyfloat \<Rightarrow> pyfloat" where
  "fmax a b = (if fle a b then b else a)"

fun fdiv_count :: "pyfloat \<Rightarrow> nat \<Rightarrow> pyfloat" where
  "fdiv_count (Finite x) n = Finite (x / real n)"
| "fdiv_count other n = other"

subsection \<open>datetime and timedelta\<close>

text \<open>
  A timedelta is a number of microseconds. A datetime is the reading of its calendar
  and clock fields, in microseconds from 1970-01-01T00:00:00, with its offset from UTC
  when it has a timezone. The type reaches from 0001-01-01T00:00:00 to
  9999-12-31T23:59:59.999999.
\<close>

type_synonym timedelta = int

definition timedelta_days :: "int \<Rightarrow> timedelta" where
  "timedelta_days n = n * 86400000000"

record datetime =
  wall :: int
  tzinfo :: "int option"

definition datetime_min :: int where
  "datetime_min = - 62135596800000000"

definition datetime_max :: int where
  "datetime_max = 253402300799999999"

definition representable :: "int \<Rightarrow> bool" where
  "representable w = (datetime_min \<le> w \<and> w \<le> datetime_max)"

text \<open>\<open>datetime.now(timezone.utc)\<close> at clock reading \<open>t\<close>: aware, offset zero.\<close>

definition datetime_now_utc :: "int \<Rightarrow> datetime" where
  "datetime_now_utc t = \<lparr>wall = t, tzinfo = Some 0\<rparr>"

text \<open>
  \<open>d - timedelta\<close>: the wall clock moves, the timezone stays; a result outside the
  range of the type raises OverflowError.
\<close>

definition dt_minus :: "datetime \<Rightarrow> timedelta \<Rightarrow> error + datetime" where
  "dt_minus d delta =
     (if representable (wall d - delta) then Inr (d\<lparr>wall := wall d - delta\<rparr>)
      else Inl OverflowError)"

text \<open>\<open>d.replace(tzinfo=timezone.utc)\<close>: the wall clock is kept as it is.\<close>

definition replace_tzinfo_utc :: "datetime \<Rightarrow> datetime" where
  "replace_tzinfo_utc d = d\<lparr>tzinfo := Some 0\<rparr>"

text \<open>
  The instant a datetime denotes: its wall clock less its offset. For a datetime
  without timezone the wall clock itself (what comparing two such datetimes compares).
\<close>

definition utc_instant :: "datetime \<Rightarrow> int" where
  "utc_instant d = (case tzinfo d of None \<Rightarrow> wall d | Some off \<Rightarrow> wall d - off)"

text \<open>
  Python's \<open>a > b\<close> and \<open>a - b\<close> on datetimes: both raise TypeError when exactly one of
  the two has a timezone, and work on the instants otherwise.
\<close>

definition dt_gt :: "datetime \<Rightarrow> datetime \<Rightarrow> error + bool" where
  "dt_gt a b =
     (if (tzinfo a = None) \<noteq> (tzinfo b = None) then Inl TypeError
      else Inr (utc_instant a > utc_instant b))"

definition dt_diff :: "datetime \<Rightarrow> datetime \<Rightarrow> error + timedelta" where
  "dt_diff a b =
     (if (tzinfo a = None) \<noteq> (tzinfo b = None) then Inl TypeError
      else Inr (utc_instant a - utc_instant b))"

subsection \<open>query_metrics, lines 94 to 122: the window and its validation\<close>

text \<open>
  A datetime object is always true in a condition, so \<open>not start_date\<close> holds exactly
  when the parameter is None. The chain of the source,
  \<^verbatim>\<open>
    if not start_date and not end_date:
        end_date = now
        start_date = end_date - timedelta(days=1)
    elif start_date and not end_date:
        end_date = now
    elif end_date and not start_date:
        start_date = end_date - timedelta(days=1)
  \<close>
  leaves both variables set, unless a subtraction raises.
\<close>

definition default_date_range ::
  "datetime \<Rightarrow> datetime option \<Rightarrow> datetime option \<Rightarrow> error + datetime \<times> datetime" where
  "default_date_range now start_date end_date =
     (case start_date of
        None \<Rightarrow>
          (case end_date of
             None \<Rightarrow>
               (let e = now
                in case dt_minus e (timedelta_days 1) of
                     Inl err \<Rightarrow> Inl err
                   | Inr s \<Rightarrow> Inr (s, e))
           | Some e \<Rightarrow>
               (case dt_minus e (timedelta_days 1) of
                  Inl err \<Rightarrow> Inl err
                | Inr s \<Rightarrow> Inr (s, e)))
      | Some s \<Rightarrow>
          (case end_date of
             None \<Rightarrow> Inr (s, now)
           | Some e \<Rightarrow> Inr (s, e)))"

definition ensure_timezone :: "datetime \<Rightarrow> datetime" where
  "ensure_timezone d = (if tzinfo d = None then replace_tzinfo_utc d else d)"

definition effective_window ::
  "int \<Rightarrow> datetime option \<Rightarrow> datetime option \<Rightarrow> error + datetime \<times> datetime" where
  "effective_window t start_date end_date =
     (let now = datetime_now_utc t
      in case default_date_range now start_date end_date of
           Inl err \<Rightarrow> Inl err
         | Inr (s, e) \<Rightarrow> Inr (ensure_timezone s, ensure_timezone e))"

definition validation :: "datetime \<Rightarrow> datetime \<Rightarrow> error + unit" where
  "validation start_date end_date =
     (case dt_gt start_date end_date of
        Inl err \<Rightarrow> Inl err
      | Inr True \<Rightarrow> Inl (HTTPException 400 ''Start date cannot be after end date.'')
      | Inr False \<Rightarrow>
          (case dt_diff end_date start_date of
             Inl err \<Rightarrow> Inl err
           | Inr range_len \<Rightarrow>
               if range_len > timedelta_days 31
               then Inl (HTTPException 400 ''Query range cannot exceed 1 month (31 days).'')
               else Inr ()))"

subsection \<open>The table of readings\<close>

text \<open>
  \<open>MetricDB\<close> is the mapped class of the table \<open>metrics\<close>; its columns carry the prefix
  \<open>row\<close> here, to keep them apart from the fields of the request body. The column
  \<open>value\<close> is \<open>Column(Float)\<close>, which admits NULL (None here).
\<close>

record MetricDB =
  row_id :: int
  row_sensor_id :: string
  row_metric_type :: string
  row_value :: "pyfloat option"
  row_timestamp :: datetime

record store =
  rows :: "MetricDB list"

text \<open>
  Modelled from the spec: the storage engine is not part of the sources. The store
  appends a row under a fresh surrogate key, larger than every key in the table
  (section 3: assigned by the store on insert, monotonically increasing, unique), and
  hands the stored row back, which is what \<open>db.add\<close>, \<open>db.commit\<close> and \<open>db.refresh\<close>
  amount to. What the stored row holds follows the column declarations of lines 18 to 25
  on the engine of line 10: a Float column keeps a number and turns NaN into NULL; a
  DateTime column (declared without timezone) keeps the calendar and clock fields and
  drops the offset, without converting, so that every stored timestamp is without
  timezone.
\<close>

definition next_id :: "store \<Rightarrow> int" where
  "next_id db = fold (\<lambda>r m. max m (row_id r + 1)) (rows db) 1"

definition sql_float :: "pyfloat \<Rightarrow> pyfloat option" where
  "sql_float v = (if v = NaN then None else Some v)"

definition sql_datetime :: "datetime \<Rightarrow> datetime" where
  "sql_datetime d = \<lparr>wall = wall d, tzinfo = None\<rparr>"

definition db_add_commit_refresh ::
  "store \<Rightarrow> string \<Rightarrow> string \<Rightarrow> pyfloat \<Rightarrow> datetime \<Rightarrow> MetricDB \<times> store" where
  "db_add_commit_refresh db sid mt v ts =
     (let r = \<lparr>row_id = next_id db, row_sensor_id = sid, row_metric_type = mt,
                row_value = sql_float v, row_timestamp = sql_datetime ts\<rparr>
      in (r, db\<lparr>rows := rows db @ [r]\<rparr>))"

subsection \<open>Ingestion: MetricCreate, MetricResponse and create_metric\<close>

text \<open>
  The body of POST /metrics is a JSON object; a field is absent or holds a JSON value.
  The parser reads the literals NaN and Infinity as numbers.
\<close>

datatype json = JNull | JBool bool | JNumber pyfloat | JString string | JArray | JObject

record body =
  body_sensor_id :: "json option"
  body_metric_type :: "json option"
  body_value :: "json option"
  body_timestamp :: "json option"

text \<open>
  The validation library is not part of the sources. What it takes for a value of a
  declared type beyond the plain case is a parameter: \<open>float_of\<close> is its reading of a
  JSON value that is not a number as a float (a numeric string, say), \<open>datetime_of\<close> its
  reading of a JSON value that is not null as a datetime; both answer None for a value
  they refuse. The plain cases are fixed: a JSON string is a str, as it is, and nothing
  else is; a JSON number is a float, the non-finite ones included (the field sets no
  \<open>allow_inf_nan=False\<close>).
\<close>

record coercions =
  float_of :: "json \<Rightarrow> pyfloat option"
  datetime_of :: "json \<Rightarrow> datetime option"

record MetricCreate =
  sensor_id :: string
  metric_type :: string
  value_f :: pyfloat
  timestamp :: "datetime option"

record MetricResponse = MetricCreate +
  id_f :: int

definition validate_str :: "json option \<Rightarrow> string option" where
  "validate_str j = (case j of Some (JString s) \<Rightarrow> Some s | _ \<Rightarrow> None)"

definition validate_float :: "coercions \<Rightarrow> json option \<Rightarrow> pyfloat option" where
  "validate_float P j =
     (case j of
        None \<Rightarrow> None
      | Some (JNumber x) \<Rightarrow> Some x
      | Some other \<Rightarrow> float_of P other)"

text \<open>
  \<open>timestamp\<close> is \<open>Optional[datetime]\<close> with a default factory: an absent field is the
  clock reading at parsing, an explicit null is None.
\<close>

definition validate_timestamp ::
  "coercions \<Rightarrow> int \<Rightarrow> json option \<Rightarrow> datetime option option" where
  "validate_timestamp P t j =
     (case j of
        None \<Rightarrow> Some (Some (datetime_now_utc t))
      | Some JNull \<Rightarrow> Some None
      | Some other \<Rightarrow> map_option Some (datetime_of P other))"

text \<open>
  \<open>sensor_id\<close>, \<open>metric_type\<close> and \<open>value\<close> are \<open>Field(...)\<close>: required, with no
  constraint beyond the type. A body with a field that does not validate is rejected,
  the error naming every such field.
\<close>

definition MetricCreate_validate :: "coercions \<Rightarrow> int \<Rightarrow> body \<Rightarrow> error + MetricCreate" where
  "MetricCreate_validate P t b =
     (case (validate_str (body_sensor_id b), validate_str (body_metric_type b),
            validate_float P (body_value b), validate_timestamp P t (body_timestamp b)) of
        (Some sid, Some mt, Some v, Some ts) \<Rightarrow>
          Inr \<lparr>sensor_id = sid, metric_type = mt, value_f = v, timestamp = ts\<rparr>
      | _ \<Rightarrow>
          Inl (RequestValidationError
                 ((if validate_str (body_sensor_id b) = None then [''sensor_id''] else []) @
                  (if validate_str (body_metric_type b) = None then [''metric_type''] else []) @
                  (if validate_float P (body_value b) = None then [''value''] else []) @
                  (if validate_timestamp P t (body_timestamp b) = None
                   then [''timestamp''] else []))))"

text \<open>
  \<open>ts = metric.timestamp or datetime.now(timezone.utc)\<close>: a datetime is always true, so
  the clock is read exactly when the timestamp is None. The handler returns the row as
  the store hands it back.
\<close>

definition create_metric :: "int \<Rightarrow> MetricCreate \<Rightarrow> store \<Rightarrow> MetricDB \<times> store" where
  "create_metric t metric db =
     (let ts = (case timestamp metric of Some d \<Rightarrow> d | None \<Rightarrow> datetime_now_utc t)
      in db_add_commit_refresh db (sensor_id metric) (metric_type metric) (value_f metric) ts)"

text \<open>
  \<open>response_model=MetricResponse\<close>: the returned row is read attribute by attribute into
  a \<open>MetricResponse\<close>, whose \<open>value\<close> is a float and so not None. How the response is
  then written out as JSON is not modelled.
\<close>

definition MetricResponse_validate :: "MetricDB \<Rightarrow> error + MetricResponse" where
  "MetricResponse_validate r =
     (case row_value r of
        None \<Rightarrow> Inl ResponseValidationError
      | Some v \<Rightarrow>
          Inr \<lparr>sensor_id = row_sensor_id r, metric_type = row_metric_type r, value_f = v,
               timestamp = Some (row_timestamp r), id_f = row_id r\<rparr>)"

text \<open>
  The route: the body is validated first, at clock reading \<open>t_parse\<close>; only a valid body
  reaches the handler, at clock reading \<open>t\<close>; what the handler returns is validated as
  the response. The result is paired with the table after the request.
\<close>

definition post_metrics ::
  "coercions \<Rightarrow> int \<Rightarrow> int \<Rightarrow> body \<Rightarrow> store \<Rightarrow> (error + MetricResponse) \<times> store" where
  "post_metrics P t_parse t b db =
     (case MetricCreate_validate P t_parse b of
        Inl err \<Rightarrow> (Inl err, db)
      | Inr metric \<Rightarrow>
          (let (r, db') = create_metric t metric db
           in (MetricResponse_validate r, db')))"

subsection \<open>query_metrics, lines 124 to 152: the grouped aggregate query\<close>

text \<open>
  The query object is built up step by step: \<open>db.query(metric_type, count)\<close> fixes the
  first two columns of every result row, \<open>add_columns\<close> appends one, \<open>filter\<close> adds a
  criterion, and \<open>all\<close> runs it, grouped by \<open>metric_type\<close>.
\<close>

datatype agg = func_min | func_max | func_sum | func_avg

definition stat_func :: "string \<Rightarrow> agg option" where
  "stat_func = map_of [(''min'', func_min), (''max'', func_max),
                       (''sum'', func_sum), (''average'', func_avg)]"

record query =
  added_columns :: "agg list"
  criteria :: "(MetricDB \<Rightarrow> bool) list"

definition db_query :: query where
  "db_query = \<lparr>added_columns = [], criteria = []\<rparr>"

definition add_columns :: "query \<Rightarrow> agg \<Rightarrow> query" where
  "add_columns q f = q\<lparr>added_columns := added_columns q @ [f]\<rparr>"

definition filter_q :: "query \<Rightarrow> (MetricDB \<Rightarrow> bool) \<Rightarrow> query" where
  "filter_q q p = q\<lparr>criteria := criteria q @ [p]\<rparr>"

text \<open>
  A result row: \<open>row[0]\<close> is the metric type, \<open>row[1]\<close> the count, and the added columns
  follow, each of them a number or NULL.
\<close>

record result_row =
  col_metric_type :: string
  col_count :: nat
  col_added :: "pyfloat option list"

text \<open>
  Modelled from the spec: the storage engine is not part of the sources (section 4.3:
  range filtering on the timestamp, membership filtering on sensor id and metric type,
  and per metric type the count and the aggregate, or NULL, of the filtered rows). The
  comparison of a stored timestamp with a bound compares the instants, a timestamp
  without timezone read as UTC (section 3). Count and aggregates pass over the NULL
  values of a group: an aggregate runs over the other values one by one, and is NULL
  over no value and where it comes out as NaN. Groups come in the order in which their
  metric types are first met among the filtered rows; only groups with a row exist.
\<close>

definition sql_ge :: "datetime \<Rightarrow> datetime \<Rightarrow> bool" where
  "sql_ge a b = (utc_instant a \<ge> utc_instant b)"

definition sql_le :: "datetime \<Rightarrow> datetime \<Rightarrow> bool" where
  "sql_le a b = (utc_instant a \<le> utc_instant b)"

fun non_null :: "'a option list \<Rightarrow> 'a list" where
  "non_null [] = []"
| "non_null (None # vs) = non_null vs"
| "non_null (Some v # vs) = v # non_null vs"

fun apply_agg :: "agg \<Rightarrow> pyfloat list \<Rightarrow> pyfloat option" where
  "apply_agg f [] = None"
| "apply_agg func_min (v # vs) = Some (fold fmin vs v)"
| "apply_agg func_max (v # vs) = Some (fold fmax vs v)"
| "apply_agg func_sum (v # vs) = sql_float (fold fadd vs v)"
| "apply_agg func_avg (v # vs) = sql_float (fdiv_count (fold fadd vs v) (length (v # vs)))"

fun group_keys :: "string list \<Rightarrow> string list" where
  "group_keys [] = []"
| "group_keys (k # ks) = k # filter (\<lambda>x. x \<noteq> k) (group_keys ks)"

definition query_all :: "store \<Rightarrow> query \<Rightarrow> result_row list" where
  "query_all db q =
     (let selected = filter (\<lambda>r. list_all (\<lambda>p. p r) (criteria q)) (rows db)
      in map (\<lambda>k. let grp = filter (\<lambda>r. row_metric_type r = k) selected;
                       vals = non_null (map row_value grp)
                   in \<lparr>col_metric_type = k, col_count = length vals,
                       col_added = map (\<lambda>f. apply_agg f vals) (added_columns q)\<rparr>)
             (group_keys (map row_metric_type selected)))"

subsection \<open>query_metrics, lines 154 to 166: shaping the output\<close>

text \<open>
  \<open>round(val, 2)\<close>: a finite value goes to the nearest multiple of one hundredth, a tie
  to the even one; a value that is not finite is returned as it is.
\<close>

definition round_half_even :: "real \<Rightarrow> int" where
  "round_half_even x =
     (let f = \<lfloor>x\<rfloor>; d = x - of_int f
      in if d < 1 / 2 then f else if d > 1 / 2 then f + 1 else if even f then f else f + 1)"

definition round2 :: "real \<Rightarrow> real" where
  "round2 x = of_int (round_half_even (x * 100)) / 100"

fun py_round2 :: "pyfloat \<Rightarrow> pyfloat" where
  "py_round2 (Finite x) = Finite (round2 x)"
| "py_round2 other = other"

record result_entry =
  res_metric_type :: string
  res_statistic :: string
  res_value :: pyfloat

text \<open>
  The loop over the result rows, with the list \<open>output\<close> it appends to. \<open>row[2]\<close> is the
  first added column: on a row without one the index is out of range.
\<close>

fun shape :: "string \<Rightarrow> result_row list \<Rightarrow> result_entry list \<Rightarrow> error + result_entry list" where
  "shape statistic [] output = Inr output"
| "shape statistic (row # results) output =
     (case col_added row of
        [] \<Rightarrow> Inl IndexError
      | val # others \<Rightarrow>
          (case val of
             None \<Rightarrow> shape statistic results output
           | Some v \<Rightarrow>
               shape statistic results
                 (output @ [\<lparr>res_metric_type = col_metric_type row,
                             res_statistic = statistic,
                             res_value = py_round2 v\<rparr>])))"

subsection \<open>query_metrics as a whole, and its route\<close>

text \<open>
  \<open>if sensor_ids:\<close> and \<open>if metrics:\<close> are false for None and for the empty list alike.
\<close>

definition in_filter :: "query \<Rightarrow> (MetricDB \<Rightarrow> string) \<Rightarrow> string list option \<Rightarrow> query" where
  "in_filter q col xs =
     (case xs of
        None \<Rightarrow> q
      | Some l \<Rightarrow> if l = [] then q else filter_q q (\<lambda>r. col r \<in> set l))"

definition query_metrics ::
  "int \<Rightarrow> store \<Rightarrow> string list option \<Rightarrow> string list option \<Rightarrow> string \<Rightarrow>
   datetime option \<Rightarrow> datetime option \<Rightarrow> error + result_entry list" where
  "query_metrics t db sensor_ids metrics statistic start_date end_date =
     (case effective_window t start_date end_date of
        Inl err \<Rightarrow> Inl err
      | Inr (s, e) \<Rightarrow>
          (case validation s e of
             Inl err \<Rightarrow> Inl err
           | Inr ok \<Rightarrow>
               (let q0 = db_query;
                    q1 = (case stat_func statistic of
                            Some f \<Rightarrow> add_columns q0 f
                          | None \<Rightarrow> q0);
                    q2 = in_filter q1 row_sensor_id sensor_ids;
                    q3 = in_filter q2 row_metric_type metrics;
                    q4 = filter_q q3 (\<lambda>r. sql_ge (row_timestamp r) s);
                    q5 = filter_q q4 (\<lambda>r. sql_le (row_timestamp r) e);
                    results = query_all db q5
                in shape statistic results [])))"

text \<open>
  The route declares \<open>statistic\<close> as a required string with the pattern
  \<open>^(min|max|sum|average)$\<close>, which the framework checks before it calls the handler: a
  request without the parameter, or with a value the pattern does not match in full,
  never reaches \<open>query_metrics\<close>.
\<close>

definition statistic_pattern :: "string \<Rightarrow> bool" where
  "statistic_pattern s = (s \<in> set [''min'', ''max'', ''sum'', ''average''])"

definition get_metrics_query ::
  "int \<Rightarrow> store \<Rightarrow> string list option \<Rightarrow> string list option \<Rightarrow> string option \<Rightarrow>
   datetime option \<Rightarrow> datetime option \<Rightarrow> error + result_entry list" where
  "get_metrics_query t db sensor_ids metrics statistic start_date end_date =
     (case statistic of
        None \<Rightarrow> Inl (RequestValidationError [''statistic''])
      | Some st \<Rightarrow>
          if statistic_pattern st
          then query_metrics t db sensor_ids metrics st start_date end_date
          else Inl (RequestValidationError [''statistic'']))"

subsection \<open>The filter and the statistics, as the specification words them\<close>

text \<open>
  These definitions are not taken from the code: they say in the specification's terms
  what the code is compared with. The window is inclusive at both ends.
\<close>

definition in_window :: "datetime \<Rightarrow> datetime \<Rightarrow> MetricDB \<Rightarrow> bool" where
  "in_window s e r =
     (utc_instant s \<le> utc_instant (row_timestamp r) \<and>
      utc_instant (row_timestamp r) \<le> utc_instant e)"

text \<open>Membership in the list whenever the list is provided (section 4.2, step 5).\<close>

definition member_if_provided :: "string list option \<Rightarrow> string \<Rightarrow> bool" where
  "member_if_provided xs x = (case xs of None \<Rightarrow> True | Some l \<Rightarrow> x \<in> set l)"

definition spec_filter ::
  "string list option \<Rightarrow> string list option \<Rightarrow> datetime \<Rightarrow> datetime \<Rightarrow> MetricDB \<Rightarrow> bool" where
  "spec_filter sensor_ids metrics s e r =
     (in_window s e r \<and> member_if_provided sensor_ids (row_sensor_id r) \<and>
      member_if_provided metrics (row_metric_type r))"

text \<open>Membership in the list whenever the list is provided and has an element.\<close>

definition member_if_nonempty :: "string list option \<Rightarrow> string \<Rightarrow> bool" where
  "member_if_nonempty xs x = (case xs of None \<Rightarrow> True | Some l \<Rightarrow> l = [] \<or> x \<in> set l)"

definition applied_filter ::
  "string list option \<Rightarrow> string list option \<Rightarrow> datetime \<Rightarrow> datetime \<Rightarrow> MetricDB \<Rightarrow> bool" where
  "applied_filter sensor_ids metrics s e r =
     (in_window s e r \<and> member_if_nonempty sensor_ids (row_sensor_id r) \<and>
      member_if_nonempty metrics (row_metric_type r))"

text \<open>
  The statistic of a group of numbers: the least and the greatest, the arithmetic sum,
  and the sum over the count.
\<close>

definition statistic_over :: "agg \<Rightarrow> real list \<Rightarrow> real" where
  "statistic_over f vs =
     (case f of
        func_min \<Rightarrow> Min (set vs)
      | func_max \<Rightarrow> Max (set vs)
      | func_sum \<Rightarrow> sum_list vs
      | func_avg \<Rightarrow> sum_list vs / real (length vs))"

text \<open>
  \<open>y\<close> is \<open>x\<close> rounded to 2 decimal places: a whole number of hundredths, at most half a
  hundredth from \<open>x\<close>.
\<close>

definition rounded_to_2_places :: "real \<Rightarrow> real \<Rightarrow> bool" where
  "rounded_to_2_places y x = (of_int \<lfloor>y * 100\<rfloor> = y * 100 \<and> \<bar>y - x\<bar> \<le> 1 / 200)"

text \<open>A stored value that is a finite number, or NULL.\<close>

fun finite_or_null :: "pyfloat option \<Rightarrow> bool" where
  "finite_or_null None = True"
| "finite_or_null (Some v) = is_finite v"

text \<open>The numbers among the values of a column: NULL and the non-finite values left out.\<close>

fun numbers :: "pyfloat option list \<Rightarrow> real list" where
  "numbers [] = []"
| "numbers (Some (Finite x) # vs) = x # numbers vs"
| "numbers (other # vs) = numbers vs"

text \<open>
  Over a set of contributing rows: the numbers of the group of a metric type, the metric
  types that have a row with a value, in the order of the groups, and the result list
  with one entry for each of them.
\<close>

definition group_values :: "(MetricDB \<Rightarrow> bool) \<Rightarrow> store \<Rightarrow> string \<Rightarrow> real list" where
  "group_values contributes db k =
     numbers (map row_value (filter (\<lambda>r. row_metric_type r = k) (filter contributes (rows db))))"

definition reported_keys :: "(MetricDB \<Rightarrow> bool) \<Rightarrow> store \<Rightarrow> string list" where
  "reported_keys contributes db =
     filter (\<lambda>k. list_ex (\<lambda>r. row_metric_type r = k \<and> row_value r \<noteq> None)
                    (filter contributes (rows db)))
       (group_keys (map row_metric_type (filter contributes (rows db))))"

definition expected_results ::
  "(MetricDB \<Rightarrow> bool) \<Rightarrow> store \<Rightarrow> string \<Rightarrow> agg \<Rightarrow> result_entry list" where
  "expected_results contributes db statistic f =
     map (\<lambda>k. \<lparr>res_metric_type = k, res_statistic = statistic,
                res_value = Finite (round2 (statistic_over f (group_values contributes db k)))\<rparr>)
         (reported_keys contributes db)"

text \<open>The aggregate of a group of rows, as the store computes it.\<close>

definition group_aggregate :: "(MetricDB \<Rightarrow> bool) \<Rightarrow> store \<Rightarrow> agg \<Rightarrow> string \<Rightarrow> pyfloat option" where
  "group_aggregate c db f k =
     apply_agg f (non_null (map row_value
       (filter (\<lambda>r. row_metric_type r = k) (filter c (rows db)))))"

subsection \<open>Example data\<close>

text \<open>The three readings of the specification's first scenario, all taken at instant 0.\<close>

definition epoch :: datetime where
  "epoch = \<lparr>wall = 0, tzinfo = Some 0\<rparr>"

definition day_before :: datetime where
  "day_before = \<lparr>wall = - 86400000000, tzinfo = Some 0\<rparr>"

definition readings :: store where
  "readings = \<lparr>rows =
     [\<lparr>row_id = 1, row_sensor_id = ''s1'', row_metric_type = ''temp'',
       row_value = Some (Finite 20), row_timestamp = \<lparr>wall = 0, tzinfo = None\<rparr>\<rparr>,
      \<lparr>row_id = 2, row_sensor_id = ''s1'', row_metric_type = ''temp'',
       row_value = Some (Finite 30), row_timestamp = \<lparr>wall = 0, tzinfo = None\<rparr>\<rparr>,
      \<lparr>row_id = 3, row_sensor_id = ''s1'', row_metric_type = ''humidity'',
       row_value = Some (Finite 50), row_timestamp = \<lparr>wall = 0, tzinfo = None\<rparr>\<rparr>]\<rparr>"

text \<open>A validation library that reads nothing beyond the plain cases.\<close>

definition plain :: coercions where
  "plain = \<lparr>float_of = (\<lambda>j. None), datetime_of = (\<lambda>j. None)\<rparr>"

text \<open>
  One that also reads the string \<open>2024-01-01T12:00:00+05:00\<close> as the datetime it
  writes: noon on the wall clock, five hours ahead of UTC.
\<close>

definition noon_plus_five :: datetime where
  "noon_plus_five = \<lparr>wall = 1704110400000000, tzinfo = Some 18000000000\<rparr>"

definition iso :: coercions where
  "iso = \<lparr>float_of = (\<lambda>j. None),
          datetime_of = (\<lambda>j. if j = JString ''2024-01-01T12:00:00+05:00''
                              then Some noon_plus_five else None)\<rparr>"

text \<open>
  A table with one reading whose value is NULL, and one with the two infinities of one
  metric type.
\<close>

definition null_reading :: store where
  "null_reading = \<lparr>rows =
     [\<lparr>row_id = 1, row_sensor_id = ''s1'', row_metric_type = ''m'',
       row_value = None, row_timestamp = \<lparr>wall = 0, tzinfo = None\<rparr>\<rparr>]\<rparr>"

definition infinite_readings :: store where
  "infinite_readings = \<lparr>rows =
     [\<lparr>row_id = 1, row_sensor_id = ''s1'', row_metric_type = ''m'',
       row_value = Some PosInf, row_timestamp = \<lparr>wall = 0, tzinfo = None\<rparr>\<rparr>,
      \<lparr>row_id = 2, row_sensor_id = ''s1'', row_metric_type = ''m'',
       row_value = Some NegInf, row_timestamp = \<lparr>wall = 0, tzinfo = None\<rparr>\<rparr>]\<rparr>"

section \<open>Properties\<close>

subsection \<open>The window\<close>

lemma ensure_timezone_aware: "tzinfo (ensure_timezone d) \<noteq> None"
  by (simp add: ensure_timezone_def replace_tzinfo_utc_def)

lemma ensure_timezone_instant: "utc_instant (ensure_timezone d) = utc_instant d"
  by (simp add: ensure_timezone_def replace_tzinfo_utc_def utc_instant_def)

lemma effective_window_aware:
  assumes "effective_window t sd ed = Inr (s, e)"
  shows "tzinfo s \<noteq> None" and "tzinfo e \<noteq> None"
  using assms ensure_timezone_aware
  by (auto simp: effective_window_def Let_def split: sum.splits prod.splits)

lemma validation_aware:
  assumes "tzinfo s \<noteq> None" and "tzinfo e \<noteq> None"
  shows "validation s e =
     (if utc_instant s > utc_instant e
      then Inl (HTTPException 400 ''Start date cannot be after end date.'')
      else if utc_instant e - utc_instant s > timedelta_days 31
      then Inl (HTTPException 400 ''Query range cannot exceed 1 month (31 days).'')
      else Inr ())"
proof -
  have gt: "dt_gt s e = Inr (utc_instant s > utc_instant e)"
    using assms by (simp add: dt_gt_def)
  have df: "dt_diff e s = Inr (utc_instant e - utc_instant s)"
    using assms by (simp add: dt_diff_def)
  show ?thesis
    unfolding validation_def gt df by simp
qed

lemma query_metrics_rejected:
  assumes "effective_window t sd ed = Inr (s, e)" and "validation s e = Inl err"
  shows "query_metrics t db ids ms st sd ed = Inl err"
  using assms by (simp add: query_metrics_def)

lemma window_start_only:
  "effective_window t (Some s) None = Inr (ensure_timezone s, datetime_now_utc t)"
  by (simp add: effective_window_def default_date_range_def ensure_timezone_def
      datetime_now_utc_def)

text \<open>
  C1, as stated, fails for a query with an end only whose end lies in the first day of
  the datetime type: the end less 24 hours is not a datetime, the subtraction of line
  103 raises OverflowError and no window is derived.
\<close>

theorem end_in_first_day_counterexample:
  "effective_window 0 None (Some \<lparr>wall = - 62135596800000000, tzinfo = None\<rparr>) =
     Inl OverflowError
   \<and> query_metrics 0 readings None None ''sum'' None
        (Some \<lparr>wall = - 62135596800000000, tzinfo = None\<rparr>) = Inl OverflowError"
  by (simp add: query_metrics_def effective_window_def default_date_range_def dt_minus_def
      representable_def datetime_min_def datetime_max_def timedelta_days_def)

text \<open>
  C1, amended. The window of a query call, with the clock read once (the reading \<open>t\<close>):
  without bounds it runs from 24 hours before now to now (now less 24 hours being a
  datetime, as it is for every clock reading later than the first day of year 1); with a
  start only, the end is now; with an end only, the start is the end less 24 hours when
  that is a datetime, that is, not before 0001-01-01T00:00:00 (nor after
  9999-12-31T23:59:59.999999), and the call raises OverflowError otherwise; with both,
  they are used as they are. Afterwards a bound without timezone gets UTC attached, its
  wall clock unchanged; a bound with a timezone is left alone.
\<close>

theorem window_derivation:
  "(representable (t - timedelta_days 1) \<longrightarrow>
      effective_window t None None =
        Inr (\<lparr>wall = t - timedelta_days 1, tzinfo = Some 0\<rparr>, datetime_now_utc t))
   \<and> effective_window t (Some s) None = Inr (ensure_timezone s, datetime_now_utc t)
   \<and> (representable (wall e - timedelta_days 1) \<longrightarrow>
      effective_window t None (Some e) =
        Inr (ensure_timezone (e\<lparr>wall := wall e - timedelta_days 1\<rparr>), ensure_timezone e))
   \<and> (\<not> representable (wall e - timedelta_days 1) \<longrightarrow>
      effective_window t None (Some e) = Inl OverflowError)
   \<and> effective_window t (Some s) (Some e) = Inr (ensure_timezone s, ensure_timezone e)
   \<and> timedelta_days 1 = 24 * 60 * 60 * 1000000
   \<and> representable w = (- 62135596800000000 \<le> w \<and> w \<le> 253402300799999999)
   \<and> ensure_timezone d = (if tzinfo d = None then d\<lparr>tzinfo := Some 0\<rparr> else d)
   \<and> wall (ensure_timezone d) = wall d"
  by (simp add: effective_window_def default_date_range_def ensure_timezone_def
      replace_tzinfo_utc_def datetime_now_utc_def dt_minus_def timedelta_days_def
      representable_def datetime_min_def datetime_max_def)

theorem window_derivation_witness:
  "representable (1000 - timedelta_days 1)
   \<and> representable (wall \<lparr>wall = 90000000000, tzinfo = None\<rparr> - timedelta_days 1)
   \<and> \<not> representable (wall \<lparr>wall = - 62135596800000000, tzinfo = None\<rparr> - timedelta_days 1)
   \<and> effective_window 1000 None None =
       Inr (\<lparr>wall = - 86399999000, tzinfo = Some 0\<rparr>, \<lparr>wall = 1000, tzinfo = Some 0\<rparr>)
   \<and> effective_window 1000 None (Some \<lparr>wall = 90000000000, tzinfo = None\<rparr>) =
       Inr (\<lparr>wall = 3600000000, tzinfo = Some 0\<rparr>, \<lparr>wall = 90000000000, tzinfo = Some 0\<rparr>)
   \<and> effective_window 1000 None (Some \<lparr>wall = - 62135596800000000, tzinfo = None\<rparr>) =
       Inl OverflowError"
proof -
  have a: "representable (1000 - timedelta_days 1)"
    and b: "representable (wall \<lparr>wall = 90000000000, tzinfo = None\<rparr> - timedelta_days 1)"
    and c: "\<not> representable
      (wall \<lparr>wall = - 62135596800000000, tzinfo = None\<rparr> - timedelta_days 1)"
    by (simp_all add: representable_def datetime_min_def datetime_max_def timedelta_days_def)
  show ?thesis
    using a b c
      window_derivation [of 1000 "\<lparr>wall = 0, tzinfo = None\<rparr>"
        "\<lparr>wall = 90000000000, tzinfo = None\<rparr>" 0 "\<lparr>wall = 0, tzinfo = None\<rparr>"]
      window_derivation [of 1000 "\<lparr>wall = 0, tzinfo = None\<rparr>"
        "\<lparr>wall = - 62135596800000000, tzinfo = None\<rparr>" 0 "\<lparr>wall = 0, tzinfo = None\<rparr>"]
    by (simp add: ensure_timezone_def replace_tzinfo_utc_def timedelta_days_def
        datetime_now_utc_def)
qed

text \<open>
  C2. Validation of the derived window, the first failure winning: a start after the end
  fails with status 400 and the message "Start date cannot be after end date."; otherwise
  a range of more than 31 days fails with status 400 and the message "Query range cannot
  exceed 1 month (31 days)."; a range of exactly 31 days passes, and so does every
  range from zero to 31 days.
\<close>

theorem range_validation:
  assumes "effective_window t sd ed = Inr (s, e)"
  shows "(utc_instant s > utc_instant e \<longrightarrow>
            query_metrics t db ids ms st sd ed =
              Inl (HTTPException 400 ''Start date cannot be after end date.''))
       \<and> (utc_instant s \<le> utc_instant e \<and> utc_instant e - utc_instant s > timedelta_days 31 \<longrightarrow>
            query_metrics t db ids ms st sd ed =
              Inl (HTTPException 400 ''Query range cannot exceed 1 month (31 days).''))
       \<and> (utc_instant e - utc_instant s = timedelta_days 31 \<longrightarrow> validation s e = Inr ())
       \<and> (validation s e = Inr () \<longleftrightarrow>
            utc_instant s \<le> utc_instant e \<and> utc_instant e - utc_instant s \<le> timedelta_days 31)
       \<and> is_client_error (HTTPException 400 ''Start date cannot be after end date.'')
       \<and> is_client_error (HTTPException 400 ''Query range cannot exceed 1 month (31 days).'')"
proof -
  have aw: "tzinfo s \<noteq> None" "tzinfo e \<noteq> None"
    using effective_window_aware [OF assms] by simp_all
  note v = validation_aware [OF aw]
  have a: "utc_instant s > utc_instant e \<longrightarrow>
            query_metrics t db ids ms st sd ed =
              Inl (HTTPException 400 ''Start date cannot be after end date.'')"
    using query_metrics_rejected [OF assms] v by simp
  have b: "utc_instant s \<le> utc_instant e \<and> utc_instant e - utc_instant s > timedelta_days 31 \<longrightarrow>
            query_metrics t db ids ms st sd ed =
              Inl (HTTPException 400 ''Query range cannot exceed 1 month (31 days).'')"
    using query_metrics_rejected [OF assms] v by simp
  have c: "utc_instant e - utc_instant s = timedelta_days 31 \<longrightarrow> validation s e = Inr ()"
    using v by (simp add: timedelta_days_def)
  have d: "validation s e = Inr () \<longleftrightarrow>
            utc_instant s \<le> utc_instant e \<and> utc_instant e - utc_instant s \<le> timedelta_days 31"
    using v by auto
  have e: "is_client_error (HTTPException 400 ''Start date cannot be after end date.'')"
    "is_client_error (HTTPException 400 ''Query range cannot exceed 1 month (31 days).'')"
    by (simp_all add: is_client_error_def)
  from a b c d e show ?thesis by blast
qed

theorem range_validation_witness:
  "query_metrics 0 \<lparr>rows = []\<rparr> None None ''sum''
      (Some \<lparr>wall = 5, tzinfo = None\<rparr>) (Some \<lparr>wall = 4, tzinfo = Some 0\<rparr>) =
     Inl (HTTPException 400 ''Start date cannot be after end date.'')
   \<and> query_metrics 0 \<lparr>rows = []\<rparr> None None ''sum''
      (Some \<lparr>wall = 0, tzinfo = None\<rparr>) (Some \<lparr>wall = 2678400000001, tzinfo = Some 0\<rparr>) =
     Inl (HTTPException 400 ''Query range cannot exceed 1 month (31 days).'')
   \<and> validation \<lparr>wall = 0, tzinfo = Some 0\<rparr> \<lparr>wall = 2678400000000, tzinfo = Some 0\<rparr> = Inr ()"
proof -
  have w1: "effective_window 0 (Some \<lparr>wall = 5, tzinfo = None\<rparr>) (Some \<lparr>wall = 4, tzinfo = Some 0\<rparr>)
            = Inr (\<lparr>wall = 5, tzinfo = Some 0\<rparr>, \<lparr>wall = 4, tzinfo = Some 0\<rparr>)"
    by (simp add: effective_window_def default_date_range_def ensure_timezone_def replace_tzinfo_utc_def)
  have w2: "effective_window 0 (Some \<lparr>wall = 0, tzinfo = None\<rparr>)
              (Some \<lparr>wall = 2678400000001, tzinfo = Some 0\<rparr>)
            = Inr (\<lparr>wall = 0, tzinfo = Some 0\<rparr>, \<lparr>wall = 2678400000001, tzinfo = Some 0\<rparr>)"
    by (simp add: effective_window_def default_date_range_def ensure_timezone_def replace_tzinfo_utc_def)
  have w3: "effective_window 0 (Some \<lparr>wall = 0, tzinfo = None\<rparr>)
              (Some \<lparr>wall = 2678400000000, tzinfo = Some 0\<rparr>)
            = Inr (\<lparr>wall = 0, tzinfo = Some 0\<rparr>, \<lparr>wall = 2678400000000, tzinfo = Some 0\<rparr>)"
    by (simp add: effective_window_def default_date_range_def ensure_timezone_def replace_tzinfo_utc_def)
  show ?thesis
    using range_validation [OF w1, of "\<lparr>rows = []\<rparr>" None None "''sum''"]
      range_validation [OF w2, of "\<lparr>rows = []\<rparr>" None None "''sum''"]
      range_validation [OF w3, of "\<lparr>rows = []\<rparr>" None None "''sum''"]
    by (simp add: utc_instant_def timedelta_days_def)
qed

text \<open>
  C10. A query with a start but no end, whose start is after the clock reading, fails
  with status 400 and the message "Start date cannot be after end date.", whatever the
  other parameters and the table.
\<close>

theorem future_start_open_end:
  assumes "utc_instant start_date > t"
  shows "query_metrics t db ids ms st (Some start_date) None =
           Inl (HTTPException 400 ''Start date cannot be after end date.'')
       \<and> is_client_error (HTTPException 400 ''Start date cannot be after end date.'')"
proof -
  have aw: "tzinfo (ensure_timezone start_date) \<noteq> None" "tzinfo (datetime_now_utc t) \<noteq> None"
    by (simp_all add: ensure_timezone_aware datetime_now_utc_def)
  have now: "utc_instant (datetime_now_utc t) = t"
    by (simp add: utc_instant_def datetime_now_utc_def)
  have "validation (ensure_timezone start_date) (datetime_now_utc t) =
          Inl (HTTPException 400 ''Start date cannot be after end date.'')"
    using assms by (simp add: validation_aware [OF aw] now ensure_timezone_instant)
  then show ?thesis
    using query_metrics_rejected [OF window_start_only] by (simp add: is_client_error_def)
qed

theorem future_start_open_end_witness:
  "utc_instant \<lparr>wall = 10, tzinfo = None\<rparr> > 3
   \<and> query_metrics 3 \<lparr>rows = []\<rparr> None None ''min'' (Some \<lparr>wall = 10, tzinfo = None\<rparr>) None =
       Inl (HTTPException 400 ''Start date cannot be after end date.'')"
proof -
  have h: "utc_instant \<lparr>wall = 10, tzinfo = None\<rparr> > 3"
    by (simp add: utc_instant_def)
  show ?thesis
    using h future_start_open_end [OF h, of "\<lparr>rows = []\<rparr>" None None "''min''"] by simp
qed

subsection \<open>Rounding\<close>

lemma round_half_even_near: "\<bar>of_int (round_half_even z) - z\<bar> \<le> 1 / 2"
proof -
  have "of_int \<lfloor>z\<rfloor> \<le> z" and "z < of_int \<lfloor>z\<rfloor> + 1"
    by linarith+
  then show ?thesis
    by (auto simp: round_half_even_def Let_def)
qed

lemma round2_grid: "of_int \<lfloor>round2 x * 100\<rfloor> = round2 x * 100"
  by (simp add: round2_def)

lemma round2_near: "\<bar>round2 x - x\<bar> \<le> 1 / 200"
proof -
  have "\<bar>of_int (round_half_even (x * 100)) - x * 100\<bar> \<le> 1 / 2"
    by (rule round_half_even_near)
  then show ?thesis
    by (simp add: round2_def field_simps abs_le_iff)
qed

lemma round2_rounded: "rounded_to_2_places (round2 x) x"
  using round2_grid round2_near by (simp add: rounded_to_2_places_def)

subsection \<open>The grouped query\<close>

lemma stat_func_pattern: "(stat_func st \<noteq> None) = statistic_pattern st"
  by (simp add: stat_func_def statistic_pattern_def)

lemma stat_func_cases:
  "stat_func st = Some f \<Longrightarrow> st \<in> {''min'', ''max'', ''sum'', ''average''}"
  by (auto simp: stat_func_def split: if_splits)

lemma stat_func_table:
  "stat_func ''min'' = Some func_min" "stat_func ''max'' = Some func_max"
  "stat_func ''sum'' = Some func_sum" "stat_func ''average'' = Some func_avg"
  by (simp_all add: stat_func_def)

lemma fold_plus_real: "fold (+) vs (v::real) = sum_list vs + v"
  by (induction vs arbitrary: v) (simp_all add: algebra_simps)

lemma fold_min_real: "fold min ws (v::real) = Min (insert v (set ws))"
  using Min.set_eq_fold [of v ws] by simp

lemma fold_max_real: "fold max ws (v::real) = Max (insert v (set ws))"
  using Max.set_eq_fold [of v ws] by simp

lemma fold_fadd_finite: "fold fadd (map Finite xs) (Finite x) = Finite (fold (+) xs x)"
  by (induction xs arbitrary: x) (simp_all add: add.commute)

lemma fold_fmin_finite: "fold fmin (map Finite xs) (Finite x) = Finite (fold min xs x)"
  by (induction xs arbitrary: x) (simp_all add: fmin_def min_def)

lemma fold_fmax_finite: "fold fmax (map Finite xs) (Finite x) = Finite (fold max xs x)"
  by (induction xs arbitrary: x) (simp_all add: fmax_def max_def)

lemma apply_agg_finite:
  "apply_agg f (map Finite xs) =
     (if xs = [] then None else Some (Finite (statistic_over f xs)))"
proof (cases xs)
  case Nil
  then show ?thesis by simp
next
  case (Cons x ws)
  then show ?thesis
    by (cases f)
      (simp_all add: statistic_over_def fold_fadd_finite fold_fmin_finite fold_fmax_finite
        fold_min_real fold_max_real fold_plus_real sql_float_def add.commute)
qed

lemma non_null_finite:
  "list_all finite_or_null vs \<Longrightarrow> non_null vs = map Finite (numbers vs)"
proof (induction vs)
  case Nil
  show ?case by simp
next
  case (Cons v vs)
  show ?case
  proof (cases v)
    case None
    with Cons show ?thesis by simp
  next
    case (Some y)
    with Cons show ?thesis by (cases y) simp_all
  qed
qed

lemma numbers_empty:
  "list_all finite_or_null vs \<Longrightarrow> (numbers vs = []) = (\<not> list_ex (\<lambda>v. v \<noteq> None) vs)"
proof (induction vs)
  case Nil
  show ?case by simp
next
  case (Cons v vs)
  show ?case
  proof (cases v)
    case None
    with Cons show ?thesis by simp
  next
    case (Some y)
    with Cons show ?thesis by (cases y) simp_all
  qed
qed


lemma set_group_keys: "set (group_keys ks) = set ks"
  by (induction ks) auto

lemma distinct_group_keys: "distinct (group_keys ks)"
  by (induction ks) (auto simp: set_group_keys)

lemma shape_single:
  "shape st (map (\<lambda>(k, n, v). \<lparr>col_metric_type = k, col_count = n, col_added = [v]\<rparr>) trip) out =
     Inr (out @ map (\<lambda>(k, n, v). \<lparr>res_metric_type = k, res_statistic = st, res_value = py_round2 (the v)\<rparr>)
                    (filter (\<lambda>(k, n, v). v \<noteq> None) trip))"
  by (induction trip arbitrary: out) (auto split: option.splits)

lemma filter_q_criteria:
  "list_all (\<lambda>p. p r) (criteria (filter_q q p0)) = (list_all (\<lambda>p. p r) (criteria q) \<and> p0 r)"
  by (simp add: filter_q_def)

lemma filter_q_added: "added_columns (filter_q q p0) = added_columns q"
  by (simp add: filter_q_def)

lemma in_filter_criteria:
  "list_all (\<lambda>p. p r) (criteria (in_filter q col xs)) =
     (list_all (\<lambda>p. p r) (criteria q) \<and> member_if_nonempty xs (col r))"
  by (simp add: in_filter_def member_if_nonempty_def filter_q_criteria split: option.splits)

lemma in_filter_added: "added_columns (in_filter q col xs) = added_columns q"
  by (simp add: in_filter_def filter_q_added split: option.splits)

lemma query_all_built:
  assumes "added_columns q = [f]"
    and "\<And>r. list_all (\<lambda>p. p r) (criteria q) = c r"
  shows "query_all db q =
           map (\<lambda>(k, n, v). \<lparr>col_metric_type = k, col_count = n, col_added = [v]\<rparr>)
             (map (\<lambda>k. (k, length (non_null (map row_value
                            (filter (\<lambda>r. row_metric_type r = k) (filter c (rows db))))),
                         group_aggregate c db f k))
                (group_keys (map row_metric_type (filter c (rows db)))))"
proof -
  have sel: "filter (\<lambda>r. list_all (\<lambda>p. p r) (criteria q)) (rows db) = filter c (rows db)"
    using assms(2) by simp
  show ?thesis
    unfolding query_all_def sel Let_def assms(1)
    by (simp add: group_aggregate_def)
qed

lemma query_metrics_run:
  assumes "stat_func statistic = Some f"
    and "effective_window t sd ed = Inr (s, e)"
    and "validation s e = Inr ()"
  shows "query_metrics t db ids ms statistic sd ed =
           Inr (map (\<lambda>k. \<lparr>res_metric_type = k, res_statistic = statistic,
                          res_value = py_round2 (the (group_aggregate
                            (applied_filter ids ms s e) db f k))\<rparr>)
                  (filter (\<lambda>k. group_aggregate (applied_filter ids ms s e) db f k \<noteq> None)
                     (group_keys (map row_metric_type
                        (filter (applied_filter ids ms s e) (rows db))))))"
proof -
  define q where "q = filter_q (filter_q (in_filter (in_filter (add_columns db_query f)
      row_sensor_id ids) row_metric_type ms) (\<lambda>r. sql_ge (row_timestamp r) s))
      (\<lambda>r. sql_le (row_timestamp r) e)"
  have added: "added_columns q = [f]"
    by (simp add: q_def filter_q_added in_filter_added add_columns_def db_query_def)
  have crit: "\<And>r. list_all (\<lambda>p. p r) (criteria q) = applied_filter ids ms s e r"
    by (auto simp: q_def filter_q_criteria in_filter_criteria add_columns_def db_query_def
        applied_filter_def in_window_def sql_ge_def sql_le_def)
  have run: "query_metrics t db ids ms statistic sd ed = shape statistic (query_all db q) []"
    using assms by (simp add: query_metrics_def q_def Let_def)
  show ?thesis
    unfolding run query_all_built [OF added crit] shape_single
    by (simp add: filter_map comp_def)
qed

lemma group_aggregate_finite:
  assumes "\<forall>r \<in> set (rows db). c r \<longrightarrow> finite_or_null (row_value r)"
  shows "group_aggregate c db f k =
           (if list_ex (\<lambda>r. row_metric_type r = k \<and> row_value r \<noteq> None) (filter c (rows db))
            then Some (Finite (statistic_over f (group_values c db k))) else None)"
proof -
  let ?grp = "filter (\<lambda>r. row_metric_type r = k) (filter c (rows db))"
  have fin: "list_all finite_or_null (map row_value ?grp)"
    using assms by (auto simp: list_all_iff)
  have ex: "list_ex (\<lambda>v. v \<noteq> None) (map row_value ?grp) =
      list_ex (\<lambda>r. row_metric_type r = k \<and> row_value r \<noteq> None) (filter c (rows db))"
    by (auto simp: list_ex_iff)
  show ?thesis
    unfolding group_aggregate_def non_null_finite [OF fin] apply_agg_finite
    using numbers_empty [OF fin] ex by (simp add: group_values_def)
qed

text \<open>
  A query with a statistic of the table and a window that passes validation, over rows
  whose values are finite or NULL, returns for the filter the code applies one entry per
  metric type that has a filtered row with a value.
\<close>

lemma query_metrics_accepted:
  assumes "stat_func statistic = Some f"
    and "effective_window t sd ed = Inr (s, e)"
    and "validation s e = Inr ()"
    and "\<forall>r \<in> set (rows db). applied_filter ids ms s e r \<longrightarrow> finite_or_null (row_value r)"
  shows "query_metrics t db ids ms statistic sd ed =
           Inr (expected_results (applied_filter ids ms s e) db statistic f)"
  unfolding query_metrics_run [OF assms(1-3)] expected_results_def reported_keys_def
    group_aggregate_finite [OF assms(4)]
  by (simp cong: map_cong)

lemma expected_results_rounded:
  assumes "entry \<in> set (expected_results c db statistic f)"
  shows "res_statistic entry = statistic \<and>
         (\<exists>y. res_value entry = Finite y \<and>
              rounded_to_2_places y (statistic_over f (group_values c db (res_metric_type entry))))"
  using assms round2_rounded by (auto simp: expected_results_def)

lemma applied_is_spec:
  assumes "ids \<noteq> Some []" and "ms \<noteq> Some []"
  shows "applied_filter ids ms s e = spec_filter ids ms s e"
  using assms
  by (auto simp: applied_filter_def spec_filter_def member_if_nonempty_def
      member_if_provided_def fun_eq_iff split: option.splits)

lemma default_window_at_0: "effective_window 0 None None = Inr (day_before, epoch)"
  by (simp add: effective_window_def default_date_range_def ensure_timezone_def
      datetime_now_utc_def dt_minus_def timedelta_days_def day_before_def epoch_def
      representable_def datetime_min_def datetime_max_def)

lemma default_window_valid: "validation day_before epoch = Inr ()"
  by (simp add: validation_def dt_gt_def dt_diff_def utc_instant_def timedelta_days_def
      day_before_def epoch_def)

lemma query_at_0:
  "query_metrics 0 db ids ms statistic None None =
     (let q0 = db_query;
          q1 = (case stat_func statistic of Some f \<Rightarrow> add_columns q0 f | None \<Rightarrow> q0);
          q2 = in_filter q1 row_sensor_id ids;
          q3 = in_filter q2 row_metric_type ms;
          q4 = filter_q q3 (\<lambda>r. sql_ge (row_timestamp r) day_before);
          q5 = filter_q q4 (\<lambda>r. sql_le (row_timestamp r) epoch)
      in shape statistic (query_all db q5) [])"
  by (simp add: query_metrics_def default_window_at_0 default_window_valid)

text \<open>
  C3, as stated, fails in two ways. Where a list is provided but empty, no row has its
  sensor id in the list, so no row would contribute, yet the code applies no sensor
  filter and reports the humidity group. And where a stored value is infinite, the
  reported maximum is infinite too, not a number with 2 decimal places.
\<close>

theorem provided_empty_list_counterexample:
  "query_metrics 0 readings (Some []) (Some [''humidity'']) ''sum'' None None =
     Inr [\<lparr>res_metric_type = ''humidity'', res_statistic = ''sum'', res_value = Finite 50\<rparr>]
   \<and> effective_window 0 None None = Inr (day_before, epoch)
   \<and> expected_results (spec_filter (Some []) (Some [''humidity'']) day_before epoch)
        readings ''sum'' func_sum = []
   \<and> query_metrics 0 infinite_readings None None ''max'' None None =
     Inr [\<lparr>res_metric_type = ''m'', res_statistic = ''max'', res_value = PosInf\<rparr>]"
proof -
  have a: "query_metrics 0 readings (Some []) (Some [''humidity'']) ''sum'' None None =
     Inr [\<lparr>res_metric_type = ''humidity'', res_statistic = ''sum'', res_value = Finite 50\<rparr>]"
    by (simp add: query_at_0 stat_func_def in_filter_def filter_q_def add_columns_def
        db_query_def query_all_def readings_def sql_ge_def sql_le_def utc_instant_def
        day_before_def epoch_def sql_float_def round2_def round_half_even_def)
  have b: "expected_results (spec_filter (Some []) (Some [''humidity'']) day_before epoch)
        readings ''sum'' func_sum = []"
    by (simp add: expected_results_def reported_keys_def spec_filter_def member_if_provided_def)
  have c: "query_metrics 0 infinite_readings None None ''max'' None None =
     Inr [\<lparr>res_metric_type = ''m'', res_statistic = ''max'', res_value = PosInf\<rparr>]"
    by (simp add: query_at_0 stat_func_def in_filter_def filter_q_def add_columns_def
        db_query_def query_all_def infinite_readings_def sql_ge_def sql_le_def utc_instant_def
        day_before_def epoch_def fmax_def)
  from a b c default_window_at_0 show ?thesis by simp
qed

text \<open>
  C3, amended. Over a window that passes validation, when neither \<open>sensor_ids\<close> nor
  \<open>metrics\<close> is an empty list and the values of the contributing rows are finite or NULL,
  the rows contributing to each group are exactly those with timestamp in the window,
  both ends included, with sensor id in \<open>sensor_ids\<close> when it is provided and with metric
  type in \<open>metrics\<close> when it is provided; and each group with a value reports the
  requested statistic of its values, NULL passed over, rounded to 2 decimal places (a
  whole number of hundredths, at most half a hundredth off): the arithmetic sum, the sum
  over the count, the least or the greatest value.
\<close>

theorem filtered_grouped_statistics:
  assumes "stat_func statistic = Some f"
    and "effective_window t sd ed = Inr (s, e)"
    and "validation s e = Inr ()"
    and "ids \<noteq> Some []" and "ms \<noteq> Some []"
    and "\<forall>r \<in> set (rows db). spec_filter ids ms s e r \<longrightarrow> finite_or_null (row_value r)"
  shows "query_metrics t db ids ms statistic sd ed =
           Inr (expected_results (spec_filter ids ms s e) db statistic f)
       \<and> map res_metric_type (expected_results (spec_filter ids ms s e) db statistic f) =
           reported_keys (spec_filter ids ms s e) db
       \<and> (\<forall>entry \<in> set (expected_results (spec_filter ids ms s e) db statistic f).
             res_statistic entry = statistic \<and>
             (\<exists>y. res_value entry = Finite y \<and>
                  rounded_to_2_places y
                    (statistic_over f
                       (group_values (spec_filter ids ms s e) db (res_metric_type entry)))))
       \<and> statistic \<in> {''min'', ''max'', ''sum'', ''average''}
       \<and> stat_func ''min'' = Some func_min \<and> stat_func ''max'' = Some func_max
       \<and> stat_func ''sum'' = Some func_sum \<and> stat_func ''average'' = Some func_avg
       \<and> statistic_over func_sum vs = sum_list vs
       \<and> statistic_over func_avg vs = sum_list vs / real (length vs)
       \<and> statistic_over func_min vs = Min (set vs)
       \<and> statistic_over func_max vs = Max (set vs)"
proof -
  have same: "applied_filter ids ms s e = spec_filter ids ms s e"
    by (rule applied_is_spec [OF assms(4,5)])
  have fin: "\<forall>r \<in> set (rows db). applied_filter ids ms s e r \<longrightarrow> finite_or_null (row_value r)"
    using assms(6) by (simp add: same)
  have a: "query_metrics t db ids ms statistic sd ed =
          Inr (expected_results (spec_filter ids ms s e) db statistic f)"
    using query_metrics_accepted [OF assms(1-3) fin] by (simp add: same)
  have b: "map res_metric_type (expected_results (spec_filter ids ms s e) db statistic f) =
           reported_keys (spec_filter ids ms s e) db"
    by (simp add: expected_results_def comp_def)
  have c: "\<forall>entry \<in> set (expected_results (spec_filter ids ms s e) db statistic f).
             res_statistic entry = statistic \<and>
             (\<exists>y. res_value entry = Finite y \<and>
                  rounded_to_2_places y
                    (statistic_over f
                       (group_values (spec_filter ids ms s e) db (res_metric_type entry))))"
    using expected_results_rounded by blast
  have d: "statistic \<in> {''min'', ''max'', ''sum'', ''average''}"
    using stat_func_cases [OF assms(1)] .
  from a b c d show ?thesis
    by (simp add: stat_func_table statistic_over_def)
qed

theorem filtered_grouped_statistics_witness:
  "query_metrics 0 readings (Some [''s1'']) (Some [''temp'']) ''average'' None None =
     Inr [\<lparr>res_metric_type = ''temp'', res_statistic = ''average'', res_value = Finite 25\<rparr>]
   \<and> rounded_to_2_places 25 ((20 + 30) / 2)"
proof -
  let ?c = "spec_filter (Some [''s1'']) (Some [''temp'']) day_before epoch"
  have f: "stat_func ''average'' = Some func_avg"
    by (simp add: stat_func_def)
  have fin: "\<forall>r \<in> set (rows readings). ?c r \<longrightarrow> finite_or_null (row_value r)"
    by (simp add: readings_def)
  have ex: "expected_results ?c readings ''average'' func_avg =
      [\<lparr>res_metric_type = ''temp'', res_statistic = ''average'', res_value = Finite 25\<rparr>]"
    by (simp add: expected_results_def reported_keys_def spec_filter_def
        member_if_provided_def in_window_def utc_instant_def readings_def day_before_def
        epoch_def group_values_def statistic_over_def round2_def round_half_even_def)
  have gv: "statistic_over func_avg (group_values ?c readings ''temp'') = (20 + 30) / 2"
    by (simp add: spec_filter_def member_if_provided_def in_window_def utc_instant_def
        readings_def day_before_def epoch_def group_values_def statistic_over_def)
  note inst = filtered_grouped_statistics [OF f default_window_at_0 default_window_valid _ _ fin,
      of "[]"]
  have q: "query_metrics 0 readings (Some [''s1'']) (Some [''temp'']) ''average'' None None =
     Inr [\<lparr>res_metric_type = ''temp'', res_statistic = ''average'', res_value = Finite 25\<rparr>]"
    using inst ex by simp
  have "\<forall>entry \<in> set (expected_results ?c readings ''average'' func_avg).
      \<exists>y. res_value entry = Finite y \<and> rounded_to_2_places y
        (statistic_over func_avg (group_values ?c readings (res_metric_type entry)))"
    using inst by simp
  then have "rounded_to_2_places 25 ((20 + 30) / 2)"
    unfolding ex using gv by simp
  with q show ?thesis by (rule conjI)
qed

text \<open>
  C4, as stated, fails on a table the service reaches. A reading posted with the value
  NaN is stored with a NULL value: its row passes the filter, so its group has a
  contributing row, yet the aggregate is NULL and the result has no entry for it. And a
  group holding both infinities has no sum, and no entry either.
\<close>

theorem null_value_group_counterexample:
  "post_metrics plain 0 0
     \<lparr>body_sensor_id = Some (JString ''s1''), body_metric_type = Some (JString ''m''),
      body_value = Some (JNumber NaN), body_timestamp = None\<rparr> \<lparr>rows = []\<rparr> =
     (Inl ResponseValidationError, null_reading)
   \<and> filter (applied_filter None None day_before epoch) (rows null_reading) =
       rows null_reading
   \<and> rows null_reading \<noteq> []
   \<and> query_metrics 0 null_reading None None ''sum'' None None = Inr []
   \<and> query_metrics 0 infinite_readings None None ''sum'' None None = Inr []"
proof -
  have a: "post_metrics plain 0 0
     \<lparr>body_sensor_id = Some (JString ''s1''), body_metric_type = Some (JString ''m''),
      body_value = Some (JNumber NaN), body_timestamp = None\<rparr> \<lparr>rows = []\<rparr> =
     (Inl ResponseValidationError, null_reading)"
    by (simp add: post_metrics_def MetricCreate_validate_def validate_str_def
        validate_float_def validate_timestamp_def create_metric_def
        db_add_commit_refresh_def next_id_def datetime_now_utc_def Let_def sql_float_def
        sql_datetime_def MetricResponse_validate_def null_reading_def)
  have b: "filter (applied_filter None None day_before epoch) (rows null_reading) =
       rows null_reading"
    by (simp add: null_reading_def applied_filter_def member_if_nonempty_def in_window_def
        utc_instant_def day_before_def epoch_def)
  have c: "rows null_reading \<noteq> []"
    by (simp add: null_reading_def)
  have d: "query_metrics 0 null_reading None None ''sum'' None None = Inr []"
    by (simp add: query_at_0 stat_func_def in_filter_def filter_q_def add_columns_def
        db_query_def query_all_def null_reading_def sql_ge_def sql_le_def utc_instant_def
        day_before_def epoch_def)
  have e: "query_metrics 0 infinite_readings None None ''sum'' None None = Inr []"
    by (simp add: query_at_0 stat_func_def in_filter_def filter_q_def add_columns_def
        db_query_def query_all_def infinite_readings_def sql_ge_def sql_le_def
        utc_instant_def day_before_def epoch_def sql_float_def)
  from a b c d e show ?thesis by simp
qed

text \<open>
  C4, amended. Where the values of the contributing rows are finite or NULL, the result
  has exactly one entry per metric type with at least one row that passes the filter in
  the window and holds a value, and none for any other metric type: a group without a
  row, or with NULL values only, has no entry. A result row of the store whose aggregate
  is NULL yields no entry, the other rows one entry each.
\<close>

theorem one_entry_per_nonempty_group:
  assumes "stat_func statistic = Some f"
    and "effective_window t sd ed = Inr (s, e)"
    and "validation s e = Inr ()"
    and "\<forall>r \<in> set (rows db). applied_filter ids ms s e r \<longrightarrow> finite_or_null (row_value r)"
  shows "(\<exists>out. query_metrics t db ids ms statistic sd ed = Inr out
            \<and> distinct (map res_metric_type out)
            \<and> set (map res_metric_type out) =
                row_metric_type ` {r \<in> set (rows db).
                  applied_filter ids ms s e r \<and> row_value r \<noteq> None})
       \<and> shape statistic
            (map (\<lambda>(k, n, v). \<lparr>col_metric_type = k, col_count = n, col_added = [v]\<rparr>) trip) [] =
           Inr (map (\<lambda>(k, n, v). \<lparr>res_metric_type = k, res_statistic = statistic,
                                   res_value = py_round2 (the v)\<rparr>)
                  (filter (\<lambda>(k, n, v). v \<noteq> None) trip))"
proof -
  let ?c = "applied_filter ids ms s e"
  let ?out = "expected_results ?c db statistic f"
  have keys: "map res_metric_type ?out = reported_keys ?c db"
    by (simp add: expected_results_def comp_def)
  have "distinct (map res_metric_type ?out)"
    unfolding keys reported_keys_def by (simp add: distinct_group_keys)
  moreover have "set (map res_metric_type ?out) =
      row_metric_type ` {r \<in> set (rows db). ?c r \<and> row_value r \<noteq> None}"
  proof -
    have "set (reported_keys ?c db) =
        {k \<in> row_metric_type ` set (filter ?c (rows db)).
           \<exists>r \<in> set (filter ?c (rows db)). row_metric_type r = k \<and> row_value r \<noteq> None}"
      by (simp add: reported_keys_def set_group_keys list_ex_iff)
    also have "\<dots> = row_metric_type ` {r \<in> set (rows db). ?c r \<and> row_value r \<noteq> None}"
    proof (rule set_eqI, rule iffI)
      fix k
      assume "k \<in> {k \<in> row_metric_type ` set (filter ?c (rows db)).
           \<exists>r \<in> set (filter ?c (rows db)). row_metric_type r = k \<and> row_value r \<noteq> None}"
      then obtain r where "r \<in> set (rows db)" "?c r" "row_metric_type r = k"
        "row_value r \<noteq> None"
        by auto
      then show "k \<in> row_metric_type ` {r \<in> set (rows db). ?c r \<and> row_value r \<noteq> None}"
        by blast
    next
      fix k
      assume "k \<in> row_metric_type ` {r \<in> set (rows db). ?c r \<and> row_value r \<noteq> None}"
      then obtain r where "r \<in> set (rows db)" "?c r" "row_metric_type r = k"
        "row_value r \<noteq> None"
        by blast
      then show "k \<in> {k \<in> row_metric_type ` set (filter ?c (rows db)).
           \<exists>r \<in> set (filter ?c (rows db)). row_metric_type r = k \<and> row_value r \<noteq> None}"
        by force
    qed
    finally show ?thesis
      unfolding keys .
  qed
  ultimately show ?thesis
    using query_metrics_accepted [OF assms] shape_single [of statistic trip "[]"] by simp
qed

theorem one_entry_per_nonempty_group_witness:
  "(\<exists>out. query_metrics 0 readings None (Some [''temp'', ''pressure'']) ''max'' None None = Inr out
       \<and> map res_metric_type out = [''temp''])
   \<and> shape ''max'' [\<lparr>col_metric_type = ''a'', col_count = 0, col_added = [None]\<rparr>,
                     \<lparr>col_metric_type = ''b'', col_count = 1, col_added = [Some (Finite 2)]\<rparr>] [] =
       Inr [\<lparr>res_metric_type = ''b'', res_statistic = ''max'', res_value = Finite 2\<rparr>]"
proof -
  have f: "stat_func ''max'' = Some func_max"
    by (simp add: stat_func_def)
  have fin: "\<forall>r \<in> set (rows readings).
      applied_filter None (Some [''temp'', ''pressure'']) day_before epoch r \<longrightarrow>
      finite_or_null (row_value r)"
    by (simp add: readings_def)
  have img: "row_metric_type ` {r \<in> set (rows readings).
        applied_filter None (Some [''temp'', ''pressure'']) day_before epoch r \<and>
        row_value r \<noteq> None} = {''temp''}"
  proof -
    have "row_metric_type ` {r \<in> set (rows readings).
        applied_filter None (Some [''temp'', ''pressure'']) day_before epoch r \<and>
        row_value r \<noteq> None} =
      set (map row_metric_type (filter
        (\<lambda>r. applied_filter None (Some [''temp'', ''pressure'']) day_before epoch r \<and>
             row_value r \<noteq> None) (rows readings)))"
      by auto
    also have "\<dots> = {''temp''}"
      by (simp add: readings_def applied_filter_def member_if_nonempty_def in_window_def
          utc_instant_def day_before_def epoch_def)
    finally show ?thesis .
  qed
  note inst = one_entry_per_nonempty_group [OF f default_window_at_0 default_window_valid fin,
      of "[(''a'', 0, None), (''b'', 1, Some (Finite 2))]"]
  from inst obtain out where
    o: "query_metrics 0 readings None (Some [''temp'', ''pressure'']) ''max'' None None = Inr out"
    and d: "distinct (map res_metric_type out)"
    and st: "set (map res_metric_type out) = {''temp''}"
    unfolding img by blast
  have "map res_metric_type out = [''temp'']"
  proof (cases "map res_metric_type out")
    case Nil
    with st show ?thesis by simp
  next
    case (Cons a as)
    with st d have "a = ''temp''" and "set as \<subseteq> {''temp''}" and "a \<notin> set as"
      by auto
    then have "as = []" by (cases as) auto
    with Cons \<open>a = ''temp''\<close> show ?thesis by simp
  qed
  then have first: "\<exists>out. query_metrics 0 readings None (Some [''temp'', ''pressure''])
      ''max'' None None = Inr out \<and> map res_metric_type out = [''temp'']"
    using o by (intro exI [of _ out]) (rule conjI)
  have second: "shape ''max'' [\<lparr>col_metric_type = ''a'', col_count = 0, col_added = [None]\<rparr>,
                     \<lparr>col_metric_type = ''b'', col_count = 1, col_added = [Some (Finite 2)]\<rparr>] [] =
       Inr [\<lparr>res_metric_type = ''b'', res_statistic = ''max'', res_value = Finite 2\<rparr>]"
    using inst by (simp add: round2_def round_half_even_def)
  from first second show ?thesis by (rule conjI)
qed

text \<open>
  C9. An empty list for \<open>sensor_ids\<close>, or for \<open>metrics\<close>, gives the same result as
  leaving the parameter out: no filter is applied.
\<close>

theorem empty_list_is_no_filter:
  "query_metrics t db (Some []) ms statistic sd ed = query_metrics t db None ms statistic sd ed
   \<and> query_metrics t db ids (Some []) statistic sd ed = query_metrics t db ids None statistic sd ed"
proof -
  have empty: "in_filter q col (Some []) = in_filter q col None"
    for q and col :: "MetricDB \<Rightarrow> string"
    by (simp add: in_filter_def)
  show ?thesis
    by (simp add: query_metrics_def Let_def empty split: prod.splits sum.splits)
qed

theorem empty_list_is_no_filter_witness:
  "query_metrics 0 readings (Some []) (Some [''humidity'']) ''min'' None None =
     query_metrics 0 readings None (Some [''humidity'']) ''min'' None None
   \<and> query_metrics 0 readings None (Some [''humidity'']) ''min'' None None =
     Inr [\<lparr>res_metric_type = ''humidity'', res_statistic = ''min'', res_value = Finite 50\<rparr>]"
proof -
  have "query_metrics 0 readings None (Some [''humidity'']) ''min'' None None =
     Inr [\<lparr>res_metric_type = ''humidity'', res_statistic = ''min'', res_value = Finite 50\<rparr>]"
    by (simp add: query_at_0 stat_func_def in_filter_def filter_q_def add_columns_def
        db_query_def query_all_def readings_def sql_ge_def sql_le_def utc_instant_def
        day_before_def epoch_def round2_def round_half_even_def)
  then show ?thesis
    using empty_list_is_no_filter [of 0 readings "Some [''humidity'']" "''min''" None None None]
    by simp
qed

text \<open>
  C6. A request whose statistic is not one of min, max, sum, average is rejected by the
  route with a request validation error, a client error, whatever the clock, the table
  and the other parameters: the handler is not entered. The read path returns a result
  only, so the table is as it was.
\<close>

theorem invalid_statistic_rejected:
  assumes "statistic \<notin> {''min'', ''max'', ''sum'', ''average''}"
  shows "get_metrics_query t db ids ms (Some statistic) sd ed =
           Inl (RequestValidationError [''statistic''])
       \<and> get_metrics_query t db ids ms None sd ed =
           Inl (RequestValidationError [''statistic''])
       \<and> is_client_error (RequestValidationError [''statistic''])"
  using assms by (simp add: get_metrics_query_def statistic_pattern_def is_client_error_def)

theorem invalid_statistic_rejected_witness:
  "''median'' \<notin> {''min'', ''max'', ''sum'', ''average''}
   \<and> get_metrics_query 0 readings None None (Some ''median'') None None =
       Inl (RequestValidationError [''statistic''])"
proof -
  have h: "''median'' \<notin> {''min'', ''max'', ''sum'', ''average''}"
    by simp
  show ?thesis
    using h invalid_statistic_rejected [OF h, of 0 readings None None None None] by simp
qed

subsection \<open>Ingestion\<close>

lemma create_metric_row:
  "create_metric t0 metric db =
     (\<lparr>row_id = next_id db, row_sensor_id = sensor_id metric,
       row_metric_type = metric_type metric, row_value = sql_float (value_f metric),
       row_timestamp = sql_datetime
         (case timestamp metric of Some d \<Rightarrow> d | None \<Rightarrow> datetime_now_utc t0)\<rparr>,
      db\<lparr>rows := rows db @
        [\<lparr>row_id = next_id db, row_sensor_id = sensor_id metric,
          row_metric_type = metric_type metric, row_value = sql_float (value_f metric),
          row_timestamp = sql_datetime
            (case timestamp metric of Some d \<Rightarrow> d | None \<Rightarrow> datetime_now_utc t0)\<rparr>]\<rparr>)"
  by (simp add: create_metric_def db_add_commit_refresh_def Let_def)

lemma fold_max_bound:
  "m \<le> fold (\<lambda>r m. max m (row_id r + 1)) xs (m::int) \<and>
   (\<forall>x \<in> set xs. row_id x < fold (\<lambda>r m. max m (row_id r + 1)) xs m)"
proof (induction xs arbitrary: m)
  case Nil
  show ?case by simp
next
  case (Cons a xs)
  from Cons [of "max m (row_id a + 1)"] show ?case by auto
qed

lemma next_id_fresh: "x \<in> set (rows db) \<Longrightarrow> row_id x < next_id db"
  using fold_max_bound [of 1 "rows db"] by (simp add: next_id_def)

lemma validate_str_Some: "(validate_str j = Some s) = (j = Some (JString s))"
  by (simp add: validate_str_def split: option.splits json.splits)

lemma validate_accepts:
  assumes "MetricCreate_validate P t b = Inr metric"
  shows "validate_str (body_sensor_id b) = Some (sensor_id metric)
       \<and> validate_str (body_metric_type b) = Some (metric_type metric)
       \<and> validate_float P (body_value b) = Some (value_f metric)
       \<and> validate_timestamp P t (body_timestamp b) = Some (timestamp metric)"
proof (cases "validate_str (body_sensor_id b)")
  case None
  with assms show ?thesis by (simp add: MetricCreate_validate_def)
next
  case sid: (Some a)
  show ?thesis
  proof (cases "validate_str (body_metric_type b)")
    case None
    with assms sid show ?thesis by (simp add: MetricCreate_validate_def)
  next
    case mt: (Some c)
    show ?thesis
    proof (cases "validate_float P (body_value b)")
      case None
      with assms sid mt show ?thesis by (simp add: MetricCreate_validate_def)
    next
      case fl: (Some v)
      show ?thesis
      proof (cases "validate_timestamp P t (body_timestamp b)")
        case None
        with assms sid mt fl show ?thesis by (simp add: MetricCreate_validate_def)
      next
        case (Some ts)
        with assms sid mt fl show ?thesis by (auto simp: MetricCreate_validate_def)
      qed
    qed
  qed
qed

lemma sql_datetime_instant:
  "tzinfo d = None \<or> tzinfo d = Some 0 \<Longrightarrow> utc_instant (sql_datetime d) = utc_instant d"
  by (auto simp: sql_datetime_def utc_instant_def)

text \<open>
  C8, as stated, fails for a reading whose timestamp is not at UTC: the timestamp has
  noon on its wall clock, five hours ahead of UTC, and the operation returns noon without
  a timezone, which is neither the resolved timestamp nor its instant.
\<close>

theorem returned_timestamp_counterexample:
  "post_metrics iso 0 0
     \<lparr>body_sensor_id = Some (JString ''s1''), body_metric_type = Some (JString ''m''),
      body_value = Some (JNumber (Finite 1)),
      body_timestamp = Some (JString ''2024-01-01T12:00:00+05:00'')\<rparr> \<lparr>rows = []\<rparr> =
     (Inr \<lparr>sensor_id = ''s1'', metric_type = ''m'', value_f = Finite 1,
           timestamp = Some \<lparr>wall = 1704110400000000, tzinfo = None\<rparr>, id_f = 1\<rparr>,
      \<lparr>rows = [\<lparr>row_id = 1, row_sensor_id = ''s1'', row_metric_type = ''m'',
                 row_value = Some (Finite 1),
                 row_timestamp = \<lparr>wall = 1704110400000000, tzinfo = None\<rparr>\<rparr>]\<rparr>)
   \<and> validate_timestamp iso 0 (Some (JString ''2024-01-01T12:00:00+05:00'')) =
       Some (Some \<lparr>wall = 1704110400000000, tzinfo = Some 18000000000\<rparr>)
   \<and> utc_instant \<lparr>wall = 1704110400000000, tzinfo = Some 18000000000\<rparr> = 1704092400000000
   \<and> utc_instant \<lparr>wall = 1704110400000000, tzinfo = None\<rparr> = 1704110400000000"
  by (simp add: post_metrics_def MetricCreate_validate_def validate_str_def
      validate_float_def validate_timestamp_def create_metric_def iso_def noon_plus_five_def
      db_add_commit_refresh_def next_id_def Let_def sql_float_def
      sql_datetime_def MetricResponse_validate_def utc_instant_def)

text \<open>
  C8, amended. For every successful ingestion call, exactly one new row is appended to
  the store, every previously stored row is unchanged, and the operation returns the
  reading of that row: the id the store assigned, above every stored id, the sensor id,
  metric type and value of the body, the value not NaN, and as timestamp the wall clock
  of the resolved timestamp (the one given, or the clock reading) without its timezone,
  which is the resolved instant when the resolved timestamp has no timezone or is at
  UTC.
\<close>

theorem ingestion_appends_one_row:
  assumes "post_metrics P t_parse t b db = (Inr resp, db')"
  shows "\<exists>r ts. rows db' = rows db @ [r]
       \<and> length (rows db') = length (rows db) + 1
       \<and> (\<forall>x \<in> set (rows db). row_id x < row_id r)
       \<and> id_f resp = row_id r
       \<and> sensor_id resp = row_sensor_id r \<and> body_sensor_id b = Some (JString (sensor_id resp))
       \<and> metric_type resp = row_metric_type r
       \<and> body_metric_type b = Some (JString (metric_type resp))
       \<and> row_value r = Some (value_f resp)
       \<and> validate_float P (body_value b) = Some (value_f resp) \<and> value_f resp \<noteq> NaN
       \<and> timestamp resp = Some (row_timestamp r)
       \<and> (validate_timestamp P t_parse (body_timestamp b) = Some (Some ts)
          \<or> validate_timestamp P t_parse (body_timestamp b) = Some None
              \<and> ts = datetime_now_utc t)
       \<and> row_timestamp r = \<lparr>wall = wall ts, tzinfo = None\<rparr>
       \<and> (tzinfo ts = None \<or> tzinfo ts = Some 0 \<longrightarrow>
            utc_instant (row_timestamp r) = utc_instant ts)"
proof -
  from assms obtain metric r where v: "MetricCreate_validate P t_parse b = Inr metric"
    and c: "create_metric t metric db = (r, db')"
    and m: "MetricResponse_validate r = Inr resp"
    by (auto simp: post_metrics_def split: sum.splits prod.splits)
  define ts where "ts = (case timestamp metric of Some d \<Rightarrow> d | None \<Rightarrow> datetime_now_utc t)"
  have r: "r = \<lparr>row_id = next_id db, row_sensor_id = sensor_id metric,
       row_metric_type = metric_type metric, row_value = sql_float (value_f metric),
       row_timestamp = sql_datetime ts\<rparr>"
    and db': "rows db' = rows db @ [r]"
    using c unfolding create_metric_row ts_def by auto
  have fresh: "\<forall>x \<in> set (rows db). row_id x < row_id r"
    using next_id_fresh by (simp add: r)
  note acc = validate_accepts [OF v]
  have val: "row_value r = Some (value_f resp)" and resp: "id_f resp = row_id r"
    "sensor_id resp = row_sensor_id r" "metric_type resp = row_metric_type r"
    "timestamp resp = Some (row_timestamp r)"
    using m by (auto simp: MetricResponse_validate_def split: option.splits)
  have notnan: "value_f resp \<noteq> NaN" and same: "value_f metric = value_f resp"
    using val by (auto simp: r sql_float_def split: if_splits)
  have sid: "body_sensor_id b = Some (JString (sensor_id resp))"
    and mt: "body_metric_type b = Some (JString (metric_type resp))"
    using acc resp by (simp_all add: validate_str_Some r)
  have fl: "validate_float P (body_value b) = Some (value_f resp)"
    using acc same by simp
  have tsv: "validate_timestamp P t_parse (body_timestamp b) = Some (Some ts)
          \<or> validate_timestamp P t_parse (body_timestamp b) = Some None
              \<and> ts = datetime_now_utc t"
    using acc by (cases "timestamp metric") (simp_all add: ts_def)
  have rt: "row_timestamp r = \<lparr>wall = wall ts, tzinfo = None\<rparr>"
    by (simp add: r sql_datetime_def)
  have inst: "tzinfo ts = None \<or> tzinfo ts = Some 0 \<longrightarrow>
            utc_instant (row_timestamp r) = utc_instant ts"
    using sql_datetime_instant by (simp add: r)
  show ?thesis
    using db' fresh resp sid mt val fl notnan tsv rt inst
    by (intro exI [of _ r] exI [of _ ts]) simp
qed

theorem ingestion_appends_one_row_witness:
  "post_metrics plain 7 8
     \<lparr>body_sensor_id = Some (JString ''sensor1''),
      body_metric_type = Some (JString ''temperature''),
      body_value = Some (JNumber (Finite 25.5)), body_timestamp = None\<rparr> readings =
     (Inr \<lparr>sensor_id = ''sensor1'', metric_type = ''temperature'', value_f = Finite 25.5,
           timestamp = Some \<lparr>wall = 7, tzinfo = None\<rparr>, id_f = 4\<rparr>,
      readings\<lparr>rows := rows readings @
        [\<lparr>row_id = 4, row_sensor_id = ''sensor1'', row_metric_type = ''temperature'',
          row_value = Some (Finite 25.5), row_timestamp = \<lparr>wall = 7, tzinfo = None\<rparr>\<rparr>]\<rparr>)
   \<and> (\<exists>r. rows (readings\<lparr>rows := rows readings @
        [\<lparr>row_id = 4, row_sensor_id = ''sensor1'', row_metric_type = ''temperature'',
          row_value = Some (Finite 25.5), row_timestamp = \<lparr>wall = 7, tzinfo = None\<rparr>\<rparr>]\<rparr>) =
        rows readings @ [r] \<and> (\<forall>x \<in> set (rows readings). row_id x < row_id r))"
proof -
  have p: "post_metrics plain 7 8
     \<lparr>body_sensor_id = Some (JString ''sensor1''),
      body_metric_type = Some (JString ''temperature''),
      body_value = Some (JNumber (Finite 25.5)), body_timestamp = None\<rparr> readings =
     (Inr \<lparr>sensor_id = ''sensor1'', metric_type = ''temperature'', value_f = Finite 25.5,
           timestamp = Some \<lparr>wall = 7, tzinfo = None\<rparr>, id_f = 4\<rparr>,
      readings\<lparr>rows := rows readings @
        [\<lparr>row_id = 4, row_sensor_id = ''sensor1'', row_metric_type = ''temperature'',
          row_value = Some (Finite 25.5), row_timestamp = \<lparr>wall = 7, tzinfo = None\<rparr>\<rparr>]\<rparr>)"
    by (simp add: post_metrics_def MetricCreate_validate_def validate_str_def
        validate_float_def validate_timestamp_def create_metric_def
        db_add_commit_refresh_def next_id_def readings_def datetime_now_utc_def Let_def
        sql_float_def sql_datetime_def MetricResponse_validate_def)
  from ingestion_appends_one_row [OF p] obtain r where
    "rows (readings\<lparr>rows := rows readings @
        [\<lparr>row_id = 4, row_sensor_id = ''sensor1'', row_metric_type = ''temperature'',
          row_value = Some (Finite 25.5), row_timestamp = \<lparr>wall = 7, tzinfo = None\<rparr>\<rparr>]\<rparr>) =
        rows readings @ [r]" and "\<forall>x \<in> set (rows readings). row_id x < row_id r"
    by blast
  then have "\<exists>r. rows (readings\<lparr>rows := rows readings @
        [\<lparr>row_id = 4, row_sensor_id = ''sensor1'', row_metric_type = ''temperature'',
          row_value = Some (Finite 25.5), row_timestamp = \<lparr>wall = 7, tzinfo = None\<rparr>\<rparr>]\<rparr>) =
        rows readings @ [r] \<and> (\<forall>x \<in> set (rows readings). row_id x < row_id r)"
    by (intro exI [of _ r]) (rule conjI)
  with p show ?thesis by (rule conjI)
qed

text \<open>
  C5, as stated, fails: a body whose \<open>sensor_id\<close> is the empty string is accepted, and
  its row is appended to the table.
\<close>

theorem empty_sensor_id_counterexample:
  "post_metrics plain 0 0
     \<lparr>body_sensor_id = Some (JString ''''), body_metric_type = Some (JString ''temp''),
      body_value = Some (JNumber (Finite 1)), body_timestamp = None\<rparr> \<lparr>rows = []\<rparr> =
     (Inr \<lparr>sensor_id = '''', metric_type = ''temp'', value_f = Finite 1,
           timestamp = Some \<lparr>wall = 0, tzinfo = None\<rparr>, id_f = 1\<rparr>,
      \<lparr>rows = [\<lparr>row_id = 1, row_sensor_id = '''', row_metric_type = ''temp'',
                 row_value = Some (Finite 1),
                 row_timestamp = \<lparr>wall = 0, tzinfo = None\<rparr>\<rparr>]\<rparr>)"
  by (simp add: post_metrics_def MetricCreate_validate_def validate_str_def
      validate_float_def validate_timestamp_def create_metric_def
      db_add_commit_refresh_def next_id_def datetime_now_utc_def Let_def sql_float_def
      sql_datetime_def MetricResponse_validate_def)

text \<open>
  C5, amended. For every ingestion request in which \<open>sensor_id\<close> or \<open>metric_type\<close> is
  absent or is not a string, or \<open>value\<close> is absent, the ingestion operation fails with a
  validation error naming that field, reported as a client error, and no row is appended
  to the store. The empty string is a string like any other: a request whose
  \<open>sensor_id\<close> and \<open>metric_type\<close> are strings, empty or not, whose value is a finite
  number and whose timestamp is absent or null succeeds and appends one row with those
  strings and that value. Nothing is said of a value that is not finite.
\<close>

theorem ingestion_validation:
  "(((\<forall>sid. body_sensor_id b \<noteq> Some (JString sid)) \<or>
     (\<forall>mt. body_metric_type b \<noteq> Some (JString mt)) \<or> body_value b = None) \<longrightarrow>
      (\<exists>fs. post_metrics P t_parse t b db = (Inl (RequestValidationError fs), db)
            \<and> is_client_error (RequestValidationError fs)
            \<and> ((\<forall>sid. body_sensor_id b \<noteq> Some (JString sid)) \<longrightarrow> ''sensor_id'' \<in> set fs)
            \<and> ((\<forall>mt. body_metric_type b \<noteq> Some (JString mt)) \<longrightarrow> ''metric_type'' \<in> set fs)
            \<and> (body_value b = None \<longrightarrow> ''value'' \<in> set fs)))
   \<and> (body_sensor_id b = Some (JString sid) \<and> body_metric_type b = Some (JString mt) \<and>
      body_value b = Some (JNumber (Finite x)) \<and>
      (body_timestamp b = None \<or> body_timestamp b = Some JNull) \<longrightarrow>
      (\<exists>r. post_metrics P t_parse t b db =
             (Inr \<lparr>sensor_id = sid, metric_type = mt, value_f = Finite x,
                   timestamp = Some (row_timestamp r), id_f = row_id r\<rparr>,
              db\<lparr>rows := rows db @ [r]\<rparr>)
           \<and> row_sensor_id r = sid \<and> row_metric_type r = mt
           \<and> row_value r = Some (Finite x)))"
proof (rule conjI; rule impI)
  assume bad: "(\<forall>sid. body_sensor_id b \<noteq> Some (JString sid)) \<or>
     (\<forall>mt. body_metric_type b \<noteq> Some (JString mt)) \<or> body_value b = None"
  have s: "(\<forall>sid. body_sensor_id b \<noteq> Some (JString sid)) =
      (validate_str (body_sensor_id b) = None)"
    by (auto simp: validate_str_def split: option.splits json.splits)
  have m: "(\<forall>mt. body_metric_type b \<noteq> Some (JString mt)) =
      (validate_str (body_metric_type b) = None)"
    by (auto simp: validate_str_def split: option.splits json.splits)
  have v: "body_value b = None \<Longrightarrow> validate_float P (body_value b) = None"
    by (simp add: validate_float_def)
  from bad have none: "validate_str (body_sensor_id b) = None \<or>
      validate_str (body_metric_type b) = None \<or> validate_float P (body_value b) = None"
    unfolding s m using v by auto
  define fs where "fs =
      (if validate_str (body_sensor_id b) = None then [''sensor_id''] else []) @
      (if validate_str (body_metric_type b) = None then [''metric_type''] else []) @
      (if validate_float P (body_value b) = None then [''value''] else []) @
      (if validate_timestamp P t_parse (body_timestamp b) = None then [''timestamp''] else [])"
  have rej: "MetricCreate_validate P t_parse b = Inl (RequestValidationError fs)"
  proof (cases "validate_str (body_sensor_id b)")
    case None
    then show ?thesis by (simp add: MetricCreate_validate_def fs_def)
  next
    case sid: (Some a)
    show ?thesis
    proof (cases "validate_str (body_metric_type b)")
      case None
      then show ?thesis by (simp add: MetricCreate_validate_def fs_def sid)
    next
      case mt: (Some c)
      from none sid mt have "validate_float P (body_value b) = None"
        by simp
      then show ?thesis by (simp add: MetricCreate_validate_def fs_def sid mt)
    qed
  qed
  have "post_metrics P t_parse t b db = (Inl (RequestValidationError fs), db)"
    by (simp add: post_metrics_def rej)
  moreover have "is_client_error (RequestValidationError fs)"
    by (simp add: is_client_error_def)
  moreover have "(\<forall>sid. body_sensor_id b \<noteq> Some (JString sid)) \<longrightarrow> ''sensor_id'' \<in> set fs"
    unfolding s by (simp add: fs_def)
  moreover have "(\<forall>mt. body_metric_type b \<noteq> Some (JString mt)) \<longrightarrow> ''metric_type'' \<in> set fs"
    unfolding m by (simp add: fs_def)
  moreover have "body_value b = None \<longrightarrow> ''value'' \<in> set fs"
    using v by (simp add: fs_def)
  ultimately show "\<exists>fs. post_metrics P t_parse t b db = (Inl (RequestValidationError fs), db)
            \<and> is_client_error (RequestValidationError fs)
            \<and> ((\<forall>sid. body_sensor_id b \<noteq> Some (JString sid)) \<longrightarrow> ''sensor_id'' \<in> set fs)
            \<and> ((\<forall>mt. body_metric_type b \<noteq> Some (JString mt)) \<longrightarrow> ''metric_type'' \<in> set fs)
            \<and> (body_value b = None \<longrightarrow> ''value'' \<in> set fs)"
    by (intro exI [of _ fs] conjI)
next
  assume ok: "body_sensor_id b = Some (JString sid) \<and> body_metric_type b = Some (JString mt) \<and>
      body_value b = Some (JNumber (Finite x)) \<and>
      (body_timestamp b = None \<or> body_timestamp b = Some JNull)"
  then obtain ts where vd: "MetricCreate_validate P t_parse b =
      Inr \<lparr>sensor_id = sid, metric_type = mt, value_f = Finite x, timestamp = ts\<rparr>"
    by (auto simp: MetricCreate_validate_def validate_str_def validate_float_def
        validate_timestamp_def)
  let ?r = "\<lparr>row_id = next_id db, row_sensor_id = sid, row_metric_type = mt,
      row_value = Some (Finite x),
      row_timestamp = sql_datetime (case ts of Some d \<Rightarrow> d | None \<Rightarrow> datetime_now_utc t)\<rparr>"
  have "post_metrics P t_parse t b db =
      (Inr \<lparr>sensor_id = sid, metric_type = mt, value_f = Finite x,
            timestamp = Some (row_timestamp ?r), id_f = row_id ?r\<rparr>,
       db\<lparr>rows := rows db @ [?r]\<rparr>)"
    by (simp add: post_metrics_def vd create_metric_row MetricResponse_validate_def
        sql_float_def)
  then show "\<exists>r. post_metrics P t_parse t b db =
             (Inr \<lparr>sensor_id = sid, metric_type = mt, value_f = Finite x,
                   timestamp = Some (row_timestamp r), id_f = row_id r\<rparr>,
              db\<lparr>rows := rows db @ [r]\<rparr>)
           \<and> row_sensor_id r = sid \<and> row_metric_type r = mt
           \<and> row_value r = Some (Finite x)"
    by (intro exI [of _ ?r]) simp
qed

theorem ingestion_validation_witness:
  "post_metrics plain 0 0
     \<lparr>body_sensor_id = Some (JString ''s1''), body_metric_type = None,
      body_value = None, body_timestamp = None\<rparr> readings =
     (Inl (RequestValidationError [''metric_type'', ''value'']), readings)
   \<and> (\<exists>r. post_metrics plain 0 0
         \<lparr>body_sensor_id = Some (JString ''''), body_metric_type = Some (JString ''''),
          body_value = Some (JNumber (Finite 1)), body_timestamp = Some JNull\<rparr> readings =
           (Inr \<lparr>sensor_id = '''', metric_type = '''', value_f = Finite 1,
                 timestamp = Some (row_timestamp r), id_f = row_id r\<rparr>,
            readings\<lparr>rows := rows readings @ [r]\<rparr>)
         \<and> row_sensor_id r = '''' \<and> row_metric_type r = '''')"
proof -
  let ?bad = "\<lparr>body_sensor_id = Some (JString ''s1''), body_metric_type = None,
      body_value = None, body_timestamp = None\<rparr>"
  let ?good = "\<lparr>body_sensor_id = Some (JString ''''), body_metric_type = Some (JString ''''),
          body_value = Some (JNumber (Finite 1)), body_timestamp = Some JNull\<rparr>"
  have a: "post_metrics plain 0 0 ?bad readings =
     (Inl (RequestValidationError [''metric_type'', ''value'']), readings)"
    using ingestion_validation [where b = ?bad and P = plain and t_parse = 0 and t = 0
        and db = readings]
    by (simp add: post_metrics_def MetricCreate_validate_def validate_str_def
        validate_float_def validate_timestamp_def)
  have b: "\<exists>r. post_metrics plain 0 0 ?good readings =
           (Inr \<lparr>sensor_id = '''', metric_type = '''', value_f = Finite 1,
                 timestamp = Some (row_timestamp r), id_f = row_id r\<rparr>,
            readings\<lparr>rows := rows readings @ [r]\<rparr>)
         \<and> row_sensor_id r = '''' \<and> row_metric_type r = ''''"
    using ingestion_validation [where b = ?good and P = plain and t_parse = 0 and t = 0
        and db = readings and sid = "''''" and mt = "''''" and x = 1]
    by auto
  from a b show ?thesis by (rule conjI)
qed

subsection \<open>Ingestion followed by a query\<close>




end
